theory Spec2Isabelle
  imports Complex_Main "HOL-Library.Sublist" "HOL-Library.Extended_Nat"
begin

section \<open>Python exceptions and values\<close>

text \<open>
  The notebook \<^verbatim>\<open>simple_data_analysis_agent_notebook-pydanticai.ipynb\<close> is glue code
  over three libraries: NumPy's global random generator, pandas (\<^verbatim>\<open>DataFrame\<close>,
  \<^verbatim>\<open>sort_values\<close>, \<^verbatim>\<open>pd.eval\<close>) and the PydanticAI agent. The notebook's own
  functions are embedded here; what a library computes is a parameter of the embedding.

  An exception is given by its class, the text \<^verbatim>\<open>str(e)\<close> yields, and its
  \<^verbatim>\<open>__cause__\<close> (set by \<^verbatim>\<open>raise ... from e\<close>). Of the class only one thing
  matters to an \<^verbatim>\<open>except Exception\<close> clause: whether it derives from
  \<^verbatim>\<open>Exception\<close>, or only from \<^verbatim>\<open>BaseException\<close> as \<^verbatim>\<open>KeyboardInterrupt\<close>,
  \<^verbatim>\<open>SystemExit\<close> and \<^verbatim>\<open>GeneratorExit\<close> do.
\<close>

datatype exc_class = Exception_subclass string | BaseException_only string

datatype pyexc = PyExc (exc_cls: exc_class) (exc_text: string) (exc_cause: "pyexc option")

fun is_Exception :: "pyexc \<Rightarrow> bool" where
  "is_Exception (PyExc (Exception_subclass name) text cause) = True"
| "is_Exception (PyExc (BaseException_only name) text cause) = False"

text \<open>\<^verbatim>\<open>ModelRetry(message)\<close> of PydanticAI, raised \<^verbatim>\<open>from e\<close>.\<close>

definition ModelRetry :: "string \<Rightarrow> pyexc \<Rightarrow> pyexc" where
  "ModelRetry message e = PyExc (Exception_subclass ''ModelRetry'') message (Some e)"

definition is_ModelRetry :: "pyexc \<Rightarrow> bool" where
  "is_ModelRetry e = (exc_cls e = Exception_subclass ''ModelRetry'')"

subsection \<open>The text of an integer\<close>

text \<open>The digit for \<open>n < 10\<close>; \<open>str_nat\<close> asks for no other.\<close>

definition digit_char :: "nat \<Rightarrow> char" where
  "digit_char n = ''0123456789'' ! n"

fun str_nat :: "nat \<Rightarrow> string" where
  "str_nat n = (if n < 10 then [digit_char n] else str_nat (n div 10) @ [digit_char (n mod 10)])"

declare str_nat.simps [simp del]

definition str_int :: "int \<Rightarrow> string" where
  "str_int i = (if i < 0 then CHR ''-'' # str_nat (nat (- i)) else str_nat (nat i))"

text \<open>The number a string of decimal digits denotes, to check \<open>str_nat\<close> against.\<close>

definition nat_of_digits :: "string \<Rightarrow> nat" where
  "nat_of_digits s = foldl (\<lambda>a c. 10 * a + (of_char c - 48)) 0 s"

text \<open>
  The values a query can evaluate to. An integer and a string are kept as they are; an
  object of any other class (a Series, a DataFrame, an Index, a float) is kept as what
  calling its \<^verbatim>\<open>__str__\<close> does, which is all \<^verbatim>\<open>df_query\<close> asks of it.
\<close>

datatype pyval = PInt int | PStr string | PNone | PObj "pyexc + string"

fun py_str :: "pyval \<Rightarrow> pyexc + string" where
  "py_str (PInt i) = Inr (str_int i)"
| "py_str (PStr s) = Inr s"
| "py_str PNone = Inr ''None''"
| "py_str (PObj r) = r"

section \<open>The DataFrame\<close>

text \<open>
  A cell holds a datetime (as its proleptic Gregorian ordinal, \<^verbatim>\<open>toordinal()\<close>), a
  string, an integer or a float; \<open>NullCell\<close> is the missing value (\<^verbatim>\<open>NaT\<close>,
  \<^verbatim>\<open>NaN\<close>, \<^verbatim>\<open>None\<close>). A float is kept as the real number it denotes. A row is the
  association list from column name to cell, in column order, and a frame keeps its rows
  with their index labels.
\<close>

datatype cell = DateCell nat | StrCell string | IntCell int | FloatCell real | NullCell

type_synonym row = "(string \<times> cell) list"

record dataframe =
  df_columns :: "string list"
  df_rows :: "(nat \<times> row) list"

section \<open>Generating the sample data\<close>

subsection \<open>Dates\<close>

text \<open>
  \<^verbatim>\<open>datetime(2022, 1, 1).toordinal()\<close> and \<^verbatim>\<open>datetime.max.toordinal()\<close>
  (9999-12-31): \<^verbatim>\<open>start_date + timedelta(days=i)\<close> raises \<^verbatim>\<open>OverflowError\<close> past
  the latter.
\<close>

definition start_date :: nat where
  "start_date = 738156"

definition max_ordinal :: nat where
  "max_ordinal = 3652059"

definition add_days :: "nat \<Rightarrow> nat \<Rightarrow> pyexc + nat" where
  "add_days d i =
     (if d + i \<le> max_ordinal then Inr (d + i)
      else Inl (PyExc (Exception_subclass ''OverflowError'') ''date value out of range'' None))"

text \<open>A list comprehension \<^verbatim>\<open>[f(x) for x in xs]\<close>: the first exception ends it.\<close>

fun comprehension :: "('a \<Rightarrow> pyexc + 'b) \<Rightarrow> 'a list \<Rightarrow> pyexc + 'b list" where
  "comprehension f [] = Inr []"
| "comprehension f (x # xs) =
     (case f x of
        Inl e \<Rightarrow> Inl e
      | Inr y \<Rightarrow> (case comprehension f xs of Inl e \<Rightarrow> Inl e | Inr ys \<Rightarrow> Inr (y # ys)))"

subsection \<open>NumPy's global random generator\<close>

text \<open>
  The generator is NumPy's, not the notebook's: its state is a type parameter and its
  four entry points the notebook calls are the fields of a record. \<^verbatim>\<open>np.random.seed(k)\<close>
  installs the state that \<open>k\<close> determines; each draw of an array of \<open>size\<close> values
  returns the array and the state it leaves behind.
\<close>

record 's np_random =
  np_seed :: "nat \<Rightarrow> 's"
  np_choice :: "cell list \<Rightarrow> nat \<Rightarrow> 's \<Rightarrow> cell list \<times> 's"
  np_randint :: "int \<Rightarrow> int \<Rightarrow> nat \<Rightarrow> 's \<Rightarrow> int list \<times> 's"
  np_uniform :: "real \<Rightarrow> real \<Rightarrow> nat \<Rightarrow> 's \<Rightarrow> real list \<times> 's"

text \<open>
  What NumPy documents of these draws, and all that is assumed of them:
  \<^verbatim>\<open>choice(a, size)\<close> returns \<open>size\<close> elements of \<open>a\<close>, \<^verbatim>\<open>randint(low, high, size)\<close>
  returns \<open>size\<close> integers from \<open>low\<close> (inclusive) to \<open>high\<close> (exclusive), and
  \<^verbatim>\<open>uniform(low, high, size)\<close> returns \<open>size\<close> numbers between \<open>low\<close> and \<open>high\<close>.
\<close>

definition np_contract :: "'s np_random \<Rightarrow> bool" where
  "np_contract np \<longleftrightarrow>
     (\<forall>xs n s. xs \<noteq> [] \<longrightarrow>
        length (fst (np_choice np xs n s)) = n \<and> set (fst (np_choice np xs n s)) \<subseteq> set xs) \<and>
     (\<forall>lo hi n s. lo < hi \<longrightarrow>
        length (fst (np_randint np lo hi n s)) = n \<and>
        (\<forall>x \<in> set (fst (np_randint np lo hi n s)). lo \<le> x \<and> x < hi)) \<and>
     (\<forall>lo hi n s. lo \<le> hi \<longrightarrow>
        length (fst (np_uniform np lo hi n s)) = n \<and>
        (\<forall>x \<in> set (fst (np_uniform np lo hi n s)). lo \<le> x \<and> x \<le> hi))"

subsection \<open>Floats and rounding\<close>

text \<open>
  Nearest integer, ties to the even one: \<^verbatim>\<open>np.rint\<close>, and the rounding of IEEE 754.
\<close>

definition rint :: "real \<Rightarrow> int" where
  "rint x =
     (let f = \<lfloor>x\<rfloor> in
      if x - of_int f < 1 / 2 then f
      else if 1 / 2 < x - of_int f then f + 1
      else if even f then f else f + 1)"

text \<open>
  Python's floats are IEEE 754 binary64 numbers, and every arithmetic operation on them
  returns the float nearest to the exact result, ties to even: for a result \<open>x\<close> with
  \<open>2 ^ e \<le> \<bar>x\<bar> < 2 ^ (e + 1)\<close> that is the nearest multiple of \<open>2 ^ (e - 52)\<close>. (The
  formula is the one for normal numbers; the notebook's numbers lie between 1 and
  \<open>10 ^ 7\<close>, far from the subnormal and the overflow range.)
\<close>

definition float_exponent :: "real \<Rightarrow> int" where
  "float_exponent x = \<lfloor>log 2 \<bar>x\<bar>\<rfloor>"

definition float64 :: "real \<Rightarrow> real" where
  "float64 x =
     (if x = 0 then 0
      else of_int (rint (x / 2 powr (of_int (float_exponent x) - 52)))
           * 2 powr (of_int (float_exponent x) - 52))"

text \<open>
  \<^verbatim>\<open>ndarray.round(decimals)\<close> on an array of floats: for \<open>decimals = 0\<close> each element
  is passed to \<^verbatim>\<open>rint\<close>; otherwise it is multiplied by \<open>10 ^ decimals\<close>, passed to
  \<^verbatim>\<open>rint\<close> and divided by \<open>10 ^ decimals\<close>, the product and the quotient being floats.
\<close>

definition ndarray_round :: "nat \<Rightarrow> real \<Rightarrow> real" where
  "ndarray_round decimals x =
     (if decimals = 0 then of_int (rint x)
      else float64 (of_int (rint (float64 (x * 10 ^ decimals))) / 10 ^ decimals))"

subsection \<open>pandas: construction and sorting\<close>

text \<open>
  \<^verbatim>\<open>pd.DataFrame(data)\<close> for a dict of arrays: the columns are the keys in order, row
  \<open>i\<close> takes element \<open>i\<close> of every array and gets the label \<open>i\<close>; arrays of
  different lengths are a \<^verbatim>\<open>ValueError\<close>.
\<close>

definition DataFrame :: "(string \<times> cell list) list \<Rightarrow> pyexc + dataframe" where
  "DataFrame data =
     (case data of
        [] \<Rightarrow> Inr \<lparr>df_columns = [], df_rows = []\<rparr>
      | (name, col) # rest \<Rightarrow>
          if list_all (\<lambda>(n, c). length c = length col) rest
          then Inr \<lparr>df_columns = map fst data,
                    df_rows = map (\<lambda>i. (i, map (\<lambda>(n, c). (n, c ! i)) data)) [0..<length col]\<rparr>
          else Inl (PyExc (Exception_subclass ''ValueError'')
                 ''All arrays must be of the same length'' None))"

text \<open>
  \<^verbatim>\<open>df.sort_values(col)\<close> returns a new frame whose rows (with their labels) are in
  ascending order of the column; an unknown column is a \<^verbatim>\<open>KeyError\<close>. The notebook
  sorts a datetime column only, and that is what the key covers: a cell that is not a
  datetime goes last, where pandas puts \<^verbatim>\<open>NaT\<close>. Rows with equal keys keep their order
  here; the notebook's keys are distinct.
\<close>

fun sort_key_of :: "cell option \<Rightarrow> enat" where
  "sort_key_of (Some (DateCell d)) = enat d"
| "sort_key_of c = \<infinity>"

definition row_key :: "string \<Rightarrow> nat \<times> row \<Rightarrow> enat" where
  "row_key col lr = sort_key_of (map_of (snd lr) col)"

definition sort_values :: "string \<Rightarrow> dataframe \<Rightarrow> pyexc + dataframe" where
  "sort_values col d =
     (if col \<in> set (df_columns d)
      then Inr (d\<lparr>df_rows := sort_key (row_key col) (df_rows d)\<rparr>)
      else Inl (PyExc (Exception_subclass ''KeyError'') (CHR 0x27 # col @ [CHR 0x27]) None))"

subsection \<open>The generation cell\<close>

definition makes :: "string list" where
  "makes = [''Toyota'', ''Honda'', ''Ford'', ''Chevrolet'', ''Nissan'', ''BMW'', ''Mercedes'',
            ''Audi'', ''Hyundai'', ''Kia'']"

definition models :: "string list" where
  "models = [''Sedan'', ''SUV'', ''Truck'', ''Hatchback'', ''Coupe'', ''Van'']"

definition colors :: "string list" where
  "colors = [''Red'', ''Blue'', ''Black'', ''White'', ''Silver'', ''Gray'', ''Green'']"

text \<open>The float literals \<^verbatim>\<open>[1.6, 2.0, 2.5, 3.0, 3.5, 4.0]\<close>.\<close>

definition engine_sizes :: "real list" where
  "engine_sizes = map float64 [1.6, 2.0, 2.5, 3.0, 3.5, 4.0]"

definition sales_persons :: "string list" where
  "sales_persons = [''Alice'', ''Bob'', ''Charlie'', ''David'', ''Eva'']"

text \<open>
  \<^verbatim>\<open>
  start_date = datetime(2022, 1, 1)
  dates = [start_date + timedelta(days=i) for i in range(n_rows)]
  data = {
      'Date': dates,
      'Make': np.random.choice(makes, n_rows),
      'Model': np.random.choice(models, n_rows),
      'Color': np.random.choice(colors, n_rows),
      'Year': np.random.randint(2015, 2023, n_rows),
      'Price': np.random.uniform(20000, 80000, n_rows).round(2),
      'Mileage': np.random.uniform(0, 100000, n_rows).round(0),
      'EngineSize': np.random.choice([1.6, 2.0, 2.5, 3.0, 3.5, 4.0], n_rows),
      'FuelEfficiency': np.random.uniform(20, 40, n_rows).round(1),
      'SalesPerson': np.random.choice(['Alice', 'Bob', 'Charlie', 'David', 'Eva'], n_rows)
  }
  df = pd.DataFrame(data).sort_values('Date')
  \<close>
  The entries of the dict are evaluated in order, each draw starting from the state the
  one before has left. The cell takes no seed: it reads the global generator state and
  returns it advanced. (The cell's three displays of the frame are not modelled.)
\<close>

definition generate_data :: "'s np_random \<Rightarrow> nat \<Rightarrow> 's \<Rightarrow> (pyexc + dataframe) \<times> 's" where
  "generate_data np n_rows s0 =
     (case comprehension (add_days start_date) [0..<n_rows] of
        Inl e \<Rightarrow> (Inl e, s0)
      | Inr dates \<Rightarrow>
          (let (make_col, s1) = np_choice np (map StrCell makes) n_rows s0;
               (model_col, s2) = np_choice np (map StrCell models) n_rows s1;
               (color_col, s3) = np_choice np (map StrCell colors) n_rows s2;
               (year_col, s4) = np_randint np 2015 2023 n_rows s3;
               (price_col, s5) = np_uniform np 20000 80000 n_rows s4;
               (mileage_col, s6) = np_uniform np 0 100000 n_rows s5;
               (engine_col, s7) = np_choice np (map FloatCell engine_sizes) n_rows s6;
               (fuel_col, s8) = np_uniform np 20 40 n_rows s7;
               (sales_col, s9) = np_choice np (map StrCell sales_persons) n_rows s8;
               data = [(''Date'', map DateCell dates),
                       (''Make'', make_col),
                       (''Model'', model_col),
                       (''Color'', color_col),
                       (''Year'', map IntCell year_col),
                       (''Price'', map (\<lambda>x. FloatCell (ndarray_round 2 x)) price_col),
                       (''Mileage'', map (\<lambda>x. FloatCell (ndarray_round 0 x)) mileage_col),
                       (''EngineSize'', engine_col),
                       (''FuelEfficiency'', map (\<lambda>x. FloatCell (ndarray_round 1 x)) fuel_col),
                       (''SalesPerson'', sales_col)]
           in case DataFrame data of
                Inl e \<Rightarrow> (Inl e, s9)
              | Inr d \<Rightarrow> (sort_values ''Date'' d, s9)))"

subsection \<open>The declared schema\<close>

text \<open>
  The ten columns with the type and range of each, as the generation cell fixes them and
  as \<^verbatim>\<open>df.info()\<close> prints them (datetime64, object, int64, float64).
\<close>

fun is_datetime :: "cell \<Rightarrow> bool" where
  "is_datetime (DateCell d) = True"
| "is_datetime c = False"

fun is_str_of :: "string list \<Rightarrow> cell \<Rightarrow> bool" where
  "is_str_of xs (StrCell x) = (x \<in> set xs)"
| "is_str_of xs c = False"

fun is_int_in :: "int \<Rightarrow> int \<Rightarrow> cell \<Rightarrow> bool" where
  "is_int_in lo hi (IntCell i) = (lo \<le> i \<and> i \<le> hi)"
| "is_int_in lo hi c = False"

fun is_float_of :: "real list \<Rightarrow> cell \<Rightarrow> bool" where
  "is_float_of xs (FloatCell x) = (x \<in> set xs)"
| "is_float_of xs c = False"

text \<open>
  The float with \<open>decimals\<close> decimal places that \<open>k\<close> counts in units of
  \<open>10 ^ - decimals\<close>: what the literal \<^verbatim>\<open>57952.65\<close> is for \<open>k = 5795265\<close>. A column
  rounded to \<open>decimals\<close> places holds such floats.
\<close>

definition decimal_float :: "nat \<Rightarrow> int \<Rightarrow> real" where
  "decimal_float decimals k =
     (if decimals = 0 then of_int k else float64 (of_int k / 10 ^ decimals))"

fun is_float_in :: "real \<Rightarrow> real \<Rightarrow> nat \<Rightarrow> cell \<Rightarrow> bool" where
  "is_float_in lo hi decimals (FloatCell x) =
     (lo \<le> x \<and> x \<le> hi \<and> (\<exists>k. x = decimal_float decimals k))"
| "is_float_in lo hi decimals c = False"

definition schema :: "(string \<times> (cell \<Rightarrow> bool)) list" where
  "schema = [(''Date'', is_datetime),
             (''Make'', is_str_of makes),
             (''Model'', is_str_of models),
             (''Color'', is_str_of colors),
             (''Year'', is_int_in 2015 2022),
             (''Price'', is_float_in 20000 80000 2),
             (''Mileage'', is_float_in 0 100000 0),
             (''EngineSize'', is_float_of engine_sizes),
             (''FuelEfficiency'', is_float_in 20 40 1),
             (''SalesPerson'', is_str_of sales_persons)]"

text \<open>
  A row conforms when it has exactly the declared columns, in order, and the cell of each
  is present and of the column's declared type and range (so it is not \<open>NullCell\<close>).
\<close>

definition conforms :: "row \<Rightarrow> bool" where
  "conforms r \<longleftrightarrow>
     map fst r = map fst schema \<and>
     list_all (\<lambda>(name, ok). case map_of r name of Some c \<Rightarrow> ok c | None \<Rightarrow> False) schema"

definition date_column :: "dataframe \<Rightarrow> cell option list" where
  "date_column d = map (\<lambda>lr. map_of (snd lr) ''Date'') (df_rows d)"

subsection \<open>A stand-in generator\<close>

text \<open>
  A generator that meets the contract, to run the cell on: its state is a counter, and
  draw number \<open>k\<close> walks through the choices, through the integer range, or through
  the interval in 1024 steps (which are floats, the bounds being integers).
\<close>

definition counter_rng :: "nat np_random" where
  "counter_rng =
     \<lparr>np_seed = (\<lambda>k. k),
      np_choice = (\<lambda>xs n s. (map (\<lambda>i. xs ! ((s + i) mod length xs)) [0..<n], s + n)),
      np_randint = (\<lambda>lo hi n s. (map (\<lambda>i. lo + int ((s + i) mod nat (hi - lo))) [0..<n], s + n)),
      np_uniform = (\<lambda>lo hi n s.
         (map (\<lambda>i. lo + (hi - lo) * real ((s + i) mod 1024) / 1024) [0..<n], s + n))\<rparr>"

text \<open>
  Row \<open>i\<close> of the frame the cell builds from the nine drawn arrays, and the frame it
  builds for two rows from the stand-in generator in state 42: the prices are the floats
  \<^verbatim>\<open>22929.69\<close> and \<^verbatim>\<open>22988.28\<close>, the engine sizes \<^verbatim>\<open>1.6\<close> and \<^verbatim>\<open>2.0\<close>, both fuel
  efficiencies \<^verbatim>\<open>21.1\<close>.
\<close>

definition drawn_row ::
  "cell list \<Rightarrow> cell list \<Rightarrow> cell list \<Rightarrow> int list \<Rightarrow> real list \<Rightarrow> real list \<Rightarrow> cell list \<Rightarrow>
   real list \<Rightarrow> cell list \<Rightarrow> nat \<Rightarrow> row" where
  "drawn_row make_col model_col color_col year_col price_col mileage_col engine_col fuel_col
     sales_col i =
     [(''Date'', DateCell (start_date + i)),
      (''Make'', make_col ! i),
      (''Model'', model_col ! i),
      (''Color'', color_col ! i),
      (''Year'', IntCell (year_col ! i)),
      (''Price'', FloatCell (ndarray_round 2 (price_col ! i))),
      (''Mileage'', FloatCell (ndarray_round 0 (mileage_col ! i))),
      (''EngineSize'', engine_col ! i),
      (''FuelEfficiency'', FloatCell (ndarray_round 1 (fuel_col ! i))),
      (''SalesPerson'', sales_col ! i)]"

definition sample_frame :: dataframe where
  "sample_frame =
     \<lparr>df_columns = [''Date'', ''Make'', ''Model'', ''Color'', ''Year'', ''Price'', ''Mileage'',
                    ''EngineSize'', ''FuelEfficiency'', ''SalesPerson''],
      df_rows =
        [(0, [(''Date'', DateCell 738156), (''Make'', StrCell ''Ford''),
              (''Model'', StrCell ''Truck''), (''Color'', StrCell ''Silver''),
              (''Year'', IntCell 2015),
              (''Price'', FloatCell (6302865194074767 / 274877906944)),
              (''Mileage'', FloatCell 5078),
              (''EngineSize'', FloatCell (3602879701896397 / 2251799813685248)),
              (''FuelEfficiency'', FloatCell (2969561004297421 / 140737488355328)),
              (''SalesPerson'', StrCell ''David'')]),
         (1, [(''Date'', DateCell 738157), (''Make'', StrCell ''Chevrolet''),
              (''Model'', StrCell ''Hatchback''), (''Color'', StrCell ''Gray''),
              (''Year'', IntCell 2016),
              (''Price'', FloatCell (789871286330327 / 34359738368)),
              (''Mileage'', FloatCell 5176),
              (''EngineSize'', FloatCell 2),
              (''FuelEfficiency'', FloatCell (2969561004297421 / 140737488355328)),
              (''SalesPerson'', StrCell ''Eva'')])]\<rparr>"

section \<open>The query tool\<close>

text \<open>
  The process state the tool and the driver act on: the lines printed so far and the one
  DataFrame object of the notebook, to which the global \<^verbatim>\<open>df\<close> and every
  \<^verbatim>\<open>Deps(df=df).df\<close> refer.
\<close>

record world =
  stdout :: "string list"
  frame :: dataframe

definition print :: "string \<Rightarrow> world \<Rightarrow> world" where
  "print line w = w\<lparr>stdout := stdout w @ [line]\<rparr>"

text \<open>
  \<^verbatim>\<open>pd.eval(query, target=df)\<close> is pandas' code. It receives the frame by reference, so
  besides returning a value or raising it hands back the frame as it has left it.
\<close>

type_synonym evaluator = "string \<Rightarrow> dataframe \<Rightarrow> (pyexc + pyval) \<times> dataframe"

text \<open>\<^verbatim>\<open>f'query: `{query}` is not a valid query. Reason: `{e}`'\<close>\<close>

definition retry_message :: "string \<Rightarrow> pyexc \<Rightarrow> string" where
  "retry_message query e =
     ''query: `'' @ query @ ''` is not a valid query. Reason: `'' @ exc_text e @ ''`''"

text \<open>
  The clause \<^verbatim>\<open>except Exception as e: raise ModelRetry(...) from e\<close>: an exception that
  is not an instance of \<^verbatim>\<open>Exception\<close> passes through it.
\<close>

definition except_Exception :: "string \<Rightarrow> pyexc \<Rightarrow> pyexc" where
  "except_Exception query e =
     (if is_Exception e then ModelRetry (retry_message query e) e else e)"

text \<open>
  \<^verbatim>\<open>
  async def df_query(ctx, query):
      print(f'Running query: `{query}`')
      try:
          return str(pd.eval(query, target=ctx.deps.df))
      except Exception as e:
          raise ModelRetry(f'query: `{query}` is not a valid query. Reason: `{e}`') from e
  \<close>
  Both the evaluation and the conversion \<^verbatim>\<open>str(...)\<close> are inside the \<^verbatim>\<open>try\<close>.
\<close>

definition df_query :: "evaluator \<Rightarrow> string \<Rightarrow> world \<Rightarrow> (pyexc + string) \<times> world" where
  "df_query pd_eval query w =
     (let w1 = print (''Running query: `'' @ query @ ''`'') w in
      case pd_eval query (frame w1) of
        (Inl e, d) \<Rightarrow> (Inl (except_Exception query e), w1\<lparr>frame := d\<rparr>)
      | (Inr v, d) \<Rightarrow>
          (case py_str v of
             Inl e \<Rightarrow> (Inl (except_Exception query e), w1\<lparr>frame := d\<rparr>)
           | Inr s \<Rightarrow> (Inr s, w1\<lparr>frame := d\<rparr>)))"

text \<open>
  Whether an evaluation fails, and with what: the exception raised by \<^verbatim>\<open>pd.eval\<close>, or
  by \<^verbatim>\<open>str\<close> on the value it returned.
\<close>

definition evaluation_failure :: "evaluator \<Rightarrow> string \<Rightarrow> dataframe \<Rightarrow> pyexc option" where
  "evaluation_failure pd_eval query d =
     (case fst (pd_eval query d) of
        Inl e \<Rightarrow> Some e
      | Inr v \<Rightarrow> (case py_str v of Inl e \<Rightarrow> Some e | Inr s \<Rightarrow> None))"

text \<open>An evaluator on which every query is cut short by the user's interrupt.\<close>

definition interrupted_eval :: evaluator where
  "interrupted_eval query d =
     (Inl (PyExc (BaseException_only ''KeyboardInterrupt'') [] None), d)"

definition empty_frame :: dataframe where
  "empty_frame = \<lparr>df_columns = [], df_rows = []\<rparr>"

text \<open>
  An evaluator on which no name of a query is bound, as for the recorded query
  \<^verbatim>\<open>cars['price'].mean()\<close>.
\<close>

definition unbound_eval :: evaluator where
  "unbound_eval query d =
     (Inl (PyExc (Exception_subclass ''UndefinedVariableError'')
        ''name 'cars' is not defined'' None), d)"

text \<open>
  An evaluator that answers the two row-count queries of the notebook's recorded run as
  pandas did there: \<^verbatim>\<open>len(df)\<close> was followed by a retry (\<^verbatim>\<open>len\<close> is not among the
  functions \<^verbatim>\<open>pd.eval\<close> supports, and it raises a \<^verbatim>\<open>ValueError\<close> saying so),
  \<^verbatim>\<open>df.shape[0]\<close> gave the row count. Every other query is outside what this instance
  describes, and is refused.
\<close>

definition len_not_supported :: string where
  "len_not_supported = CHR 0x22 # ''len'' @ CHR 0x22 # '' is not a supported function''"

definition row_count_eval :: evaluator where
  "row_count_eval query d =
     (if query = ''df.shape[0]'' then (Inr (PInt (int (length (df_rows d)))), d)
      else if query = ''len(df)''
      then (Inl (PyExc (Exception_subclass ''ValueError'') len_not_supported None), d)
      else (Inl (PyExc (Exception_subclass ''NotImplementedError'') [] None), d))"

text \<open>
  \<^verbatim>\<open>pd.eval\<close> carries out the method calls a query writes on the frame. This evaluator
  does so for one of them, \<^verbatim>\<open>df.pop('Year').sum()\<close>, which removes the column from the
  frame and returns the sum of what it held; every other query is refused.
\<close>

definition drop_column :: "string \<Rightarrow> dataframe \<Rightarrow> dataframe" where
  "drop_column name d =
     d\<lparr>df_columns := filter (\<lambda>c. c \<noteq> name) (df_columns d),
       df_rows := map (\<lambda>(label, r). (label, filter (\<lambda>(n, c). n \<noteq> name) r)) (df_rows d)\<rparr>"

fun int_of_cell :: "cell option \<Rightarrow> int" where
  "int_of_cell (Some (IntCell i)) = i"
| "int_of_cell c = 0"

definition pop_eval :: evaluator where
  "pop_eval query d =
     (if query = ''df.pop('Year').sum()'' \<and> ''Year'' \<in> set (df_columns d)
      then (Inr (PInt (sum_list (map (\<lambda>lr. int_of_cell (map_of (snd lr) ''Year''))
                                   (df_rows d)))),
            drop_column ''Year'' d)
      else (Inl (PyExc (Exception_subclass ''NotImplementedError'') [] None), d))"

definition two_cars :: dataframe where
  "two_cars =
     \<lparr>df_columns = [''Make'', ''Year''],
      df_rows = [(0, [(''Make'', StrCell ''Mercedes''), (''Year'', IntCell 2022)]),
                 (1, [(''Make'', StrCell ''Chevrolet''), (''Year'', IntCell 2021)])]\<rparr>"

section \<open>The question driver\<close>

text \<open>
  \<^verbatim>\<open>agent.run_sync(question, deps=deps)\<close> is PydanticAI's code: a parameter. It may print
  (through the tool) and act on the frame, and it returns the run's new messages or
  raises. A message is kept as what reading and formatting its \<^verbatim>\<open>content\<close> does.
\<close>

type_synonym message = "pyexc + string"

type_synonym orchestrator = "string \<Rightarrow> world \<Rightarrow> (pyexc + message list) \<times> world"

text \<open>\<^verbatim>\<open>xs[-1]\<close>\<close>

definition last_item :: "'a list \<Rightarrow> pyexc + 'a" where
  "last_item xs =
     (if xs = []
      then Inl (PyExc (Exception_subclass ''IndexError'') ''list index out of range'' None)
      else Inr (last xs))"

text \<open>
  \<^verbatim>\<open>
  def ask_agent(question):
      deps = Deps(df=df)
      print(f"Question: {question}")
      response = agent.run_sync(question, deps=deps)
      print(f"Answer: {response.new_messages()[-1].content}")
      print("---")
  \<close>
  The function has no \<^verbatim>\<open>return\<close> and so returns \<^verbatim>\<open>None\<close>, the unit value here.
  \<^verbatim>\<open>deps\<close> holds nothing but a reference to the frame, which is in the state passed on.
\<close>

definition ask_agent :: "orchestrator \<Rightarrow> string \<Rightarrow> world \<Rightarrow> (pyexc + unit) \<times> world" where
  "ask_agent run_sync question w =
     (let w1 = print (''Question: '' @ question) w in
      case run_sync question w1 of
        (Inl e, w2) \<Rightarrow> (Inl e, w2)
      | (Inr new_messages, w2) \<Rightarrow>
          (case last_item new_messages of
             Inl e \<Rightarrow> (Inl e, w2)
           | Inr m \<Rightarrow>
               (case m of
                  Inl e \<Rightarrow> (Inl e, w2)
                | Inr content \<Rightarrow> (Inr (), print ''---'' (print (''Answer: '' @ content) w2)))))"

text \<open>
  Two orchestrators to run the driver on. Each leaves a line on the output every time
  it is invoked; the first then raises, the second answers.
\<close>

definition exhausted_run :: orchestrator where
  "exhausted_run question w =
     (Inl (PyExc (Exception_subclass ''UnexpectedModelBehavior'')
        ''Tool exceeded max retries count of 10'' None),
      print ''Running query: `len(df)`'' w)"

definition answering_run :: orchestrator where
  "answering_run question w =
     (Inr [Inr question, Inr ''The dataset contains 1,000 rows.''],
      print ''Running query: `df.shape[0]`'' w)"

section \<open>Properties of the query tool\<close>

lemma frame_print [simp]: "frame (print line w) = frame w"
  by (simp add: print_def)

lemma stdout_print [simp]: "stdout (print line w) = stdout w @ [line]"
  by (simp add: print_def)

lemma df_query_outcome:
  "fst (df_query pd_eval query w) =
     (case evaluation_failure pd_eval query (frame w) of
        Some e \<Rightarrow> Inl (except_Exception query e)
      | None \<Rightarrow> (case fst (pd_eval query (frame w)) of
                  Inr v \<Rightarrow> py_str v
                | Inl e \<Rightarrow> Inl e))"
  by (cases "pd_eval query (frame w)")
    (simp add: df_query_def evaluation_failure_def Let_def split: sum.splits)

lemma sublist_retry_message: "sublist query (retry_message query e)"
  unfolding sublist_def retry_message_def by blast

lemma digit_char_val: "n < 10 \<Longrightarrow> (of_char (digit_char n) :: nat) - 48 = n"
proof -
  assume "n < 10"
  then have "n \<in> {0, 1, 2, 3, 4, 5, 6, 7, 8, 9}"
    by auto
  then show ?thesis
    by (auto simp add: digit_char_def)
qed

lemma nat_of_digits_str_nat: "nat_of_digits (str_nat n) = n"
proof (induction n rule: str_nat.induct)
  case (1 n)
  show ?case
  proof (cases "n < 10")
    case True
    then show ?thesis
      by (subst str_nat.simps) (simp add: nat_of_digits_def digit_char_val)
  next
    case False
    have "n mod 10 < 10" by simp
    then have d: "(of_char (digit_char (n mod 10)) :: nat) - 48 = n mod 10"
      by (rule digit_char_val)
    from False 1 have ih: "nat_of_digits (str_nat (n div 10)) = n div 10" by simp
    show ?thesis using False ih d
      by (subst str_nat.simps) (simp add: nat_of_digits_def)
  qed
qed

text \<open>
  C1 (as stated, refuted). The claim promises a ModelRetry for a failure of any kind. An
  evaluation ended by \<^verbatim>\<open>KeyboardInterrupt\<close> fails, and \<^verbatim>\<open>df_query\<close> raises that very
  exception, which is not a ModelRetry.
\<close>

theorem C1_counterexample:
  "evaluation_failure interrupted_eval ''len(df)'' empty_frame
     = Some (PyExc (BaseException_only ''KeyboardInterrupt'') [] None)
   \<and> fst (df_query interrupted_eval ''len(df)'' \<lparr>stdout = [], frame = empty_frame\<rparr>)
     = Inl (PyExc (BaseException_only ''KeyboardInterrupt'') [] None)
   \<and> \<not> is_ModelRetry (PyExc (BaseException_only ''KeyboardInterrupt'') [] None)"
  by (simp add: df_query_def evaluation_failure_def interrupted_eval_def except_Exception_def
      is_ModelRetry_def Let_def)

text \<open>
  C1 (amended). For every query and every dataset, if evaluating the query fails with an
  exception that is an instance of \<^verbatim>\<open>Exception\<close>, the tool does not return and raises
  exactly one thing: a ModelRetry whose cause is that exception and whose message
  contains the query text (and the exception's text). A failure that is not an instance
  of \<^verbatim>\<open>Exception\<close> is raised unchanged.
\<close>

theorem C1_df_query_failure:
  assumes "evaluation_failure pd_eval query (frame w) = Some e"
  shows "(is_Exception e \<longrightarrow>
           fst (df_query pd_eval query w) = Inl (ModelRetry (retry_message query e) e)
           \<and> is_ModelRetry (ModelRetry (retry_message query e) e)
           \<and> sublist query (retry_message query e)
           \<and> sublist (exc_text e) (retry_message query e))
       \<and> (\<not> is_Exception e \<longrightarrow> fst (df_query pd_eval query w) = Inl e)"
proof -
  have out: "fst (df_query pd_eval query w) = Inl (except_Exception query e)"
    using assms by (simp add: df_query_outcome)
  have "sublist (exc_text e) (retry_message query e)"
    unfolding sublist_def retry_message_def by (metis append.assoc)
  then show ?thesis
    using out by (simp add: except_Exception_def is_ModelRetry_def ModelRetry_def
        sublist_retry_message)
qed

text \<open>
  C1, at the recorded query \<^verbatim>\<open>cars['price'].mean()\<close>, whose name \<^verbatim>\<open>cars\<close> is unbound.
\<close>

theorem C1_df_query_failure_witness:
  "evaluation_failure unbound_eval ''cars['price'].mean()'' empty_frame
     = Some (PyExc (Exception_subclass ''UndefinedVariableError'')
          ''name 'cars' is not defined'' None)
   \<and> fst (df_query unbound_eval ''cars['price'].mean()'' \<lparr>stdout = [], frame = empty_frame\<rparr>)
     = Inl (PyExc (Exception_subclass ''ModelRetry'')
         ''query: `cars['price'].mean()` is not a valid query. Reason: `name 'cars' is not defined`''
         (Some (PyExc (Exception_subclass ''UndefinedVariableError'')
          ''name 'cars' is not defined'' None)))"
proof -
  have f: "evaluation_failure unbound_eval ''cars['price'].mean()''
             (frame \<lparr>stdout = [], frame = empty_frame\<rparr>)
           = Some (PyExc (Exception_subclass ''UndefinedVariableError'')
          ''name 'cars' is not defined'' None)"
    by (simp add: evaluation_failure_def unbound_eval_def)
  show ?thesis
    using f C1_df_query_failure [OF f]
    by (simp add: ModelRetry_def retry_message_def)
qed

text \<open>
  C3 (as stated, refuted). On a dataset of two rows the query \<^verbatim>\<open>len(df)\<close> does not
  succeed with \<^verbatim>\<open>2\<close>: the evaluator does not support \<^verbatim>\<open>len\<close>, and the tool raises a
  ModelRetry. The notebook's recorded run shows the same, \<^verbatim>\<open>len(df)\<close> being followed
  by the retry \<^verbatim>\<open>df.shape[0]\<close>.
\<close>

theorem C3_counterexample:
  "fst (df_query row_count_eval ''len(df)'' \<lparr>stdout = [], frame = two_cars\<rparr>)
     = Inl (ModelRetry
         (''query: `len(df)` is not a valid query. Reason: `'' @ len_not_supported @ ''`'')
         (PyExc (Exception_subclass ''ValueError'') len_not_supported None))
   \<and> length (df_rows two_cars) = 2"
  by (simp add: df_query_def row_count_eval_def except_Exception_def retry_message_def
      two_cars_def Let_def)

text \<open>
  C3 (amended). Whenever the evaluator produces a value for the query, the tool returns
  the string conversion of that value; in particular, when the value is the row count
  \<open>n\<close> of the dataset the tool returns the decimal representation of \<open>n\<close>, a digit
  string that denotes \<open>n\<close>. (That \<^verbatim>\<open>len(df)\<close> be such a query is not promised.)
\<close>

theorem C3_df_query_success:
  assumes "fst (pd_eval query (frame w)) = Inr v"
  shows "(\<forall>s. py_str v = Inr s \<longrightarrow> fst (df_query pd_eval query w) = Inr s)
       \<and> (\<forall>n. v = PInt (int n) \<longrightarrow>
              fst (df_query pd_eval query w) = Inr (str_nat n)
              \<and> nat_of_digits (str_nat n) = n)"
  using assms
  by (cases "pd_eval query (frame w)")
    (auto simp add: df_query_def Let_def str_int_def nat_of_digits_str_nat)

text \<open>
  C3, at the recorded query \<^verbatim>\<open>df.shape[0]\<close> on a dataset of two rows.
\<close>

theorem C3_df_query_success_witness:
  "fst (row_count_eval ''df.shape[0]'' two_cars) = Inr (PInt 2)
   \<and> fst (df_query row_count_eval ''df.shape[0]'' \<lparr>stdout = [], frame = two_cars\<rparr>) = Inr ''2''"
proof -
  have e: "fst (row_count_eval ''df.shape[0]'' (frame \<lparr>stdout = [], frame = two_cars\<rparr>))
           = Inr (PInt (int 2))"
    by (simp add: row_count_eval_def two_cars_def)
  show ?thesis
    using e C3_df_query_success [of row_count_eval "''df.shape[0]''"
        "\<lparr>stdout = [], frame = two_cars\<rparr>" "PInt (int 2)"]
    by (simp add: str_nat.simps str_int_def digit_char_def)
qed

text \<open>
  C8 (as stated, refuted). The query \<^verbatim>\<open>df.pop('Year').sum()\<close> is evaluated without
  error, the tool returns \<^verbatim>\<open>4043\<close>, and the dataset has lost its \<^verbatim>\<open>Year\<close> column.
\<close>

theorem C8_counterexample:
  "df_query pop_eval ''df.pop('Year').sum()'' \<lparr>stdout = [], frame = two_cars\<rparr>
     = (Inr ''4043'',
        \<lparr>stdout = [''Running query: `df.pop('Year').sum()`''],
         frame = \<lparr>df_columns = [''Make''],
                   df_rows = [(0, [(''Make'', StrCell ''Mercedes'')]),
                              (1, [(''Make'', StrCell ''Chevrolet'')])]\<rparr>\<rparr>)
   \<and> frame (snd (df_query pop_eval ''df.pop('Year').sum()'' \<lparr>stdout = [], frame = two_cars\<rparr>))
     \<noteq> two_cars"
  by (simp add: df_query_def pop_eval_def two_cars_def drop_column_def print_def Let_def
      str_int_def str_nat.simps digit_char_def)

text \<open>
  C8 (amended). The tool writes nothing to the dataset itself: whether it returns or
  raises, the dataset after the call is the one the evaluator has left, so for every
  query on which the evaluator leaves the dataset as it was, every record and field is
  unchanged after the call.
\<close>

theorem C8_df_query_frame:
  "frame (snd (df_query pd_eval query w)) = snd (pd_eval query (frame w))
   \<and> (snd (pd_eval query (frame w)) = frame w
        \<longrightarrow> frame (snd (df_query pd_eval query w)) = frame w)"
  by (cases "pd_eval query (frame w)") (simp add: df_query_def Let_def split: sum.splits)

text \<open>
  C8, at a query that raises a ModelRetry and at one that succeeds.
\<close>

theorem C8_df_query_frame_witness:
  "snd (row_count_eval ''len(df)'' two_cars) = two_cars
   \<and> frame (snd (df_query row_count_eval ''len(df)'' \<lparr>stdout = [], frame = two_cars\<rparr>))
     = two_cars
   \<and> snd (row_count_eval ''df.shape[0]'' two_cars) = two_cars
   \<and> frame (snd (df_query row_count_eval ''df.shape[0]'' \<lparr>stdout = [], frame = two_cars\<rparr>))
     = two_cars"
  using C8_df_query_frame [of row_count_eval "''len(df)''" "\<lparr>stdout = [], frame = two_cars\<rparr>"]
    C8_df_query_frame [of row_count_eval "''df.shape[0]''" "\<lparr>stdout = [], frame = two_cars\<rparr>"]
  by (simp add: row_count_eval_def)

section \<open>Properties of the question driver\<close>

text \<open>
  C9. \<^verbatim>\<open>ask_agent\<close> prints the question and hands it to the orchestrator once. If the
  orchestrator raises, the call raises the same exception, whatever its class, and the
  state is as the orchestrator left it: nothing is caught, nothing is retried, no answer
  is printed. If it returns and the last new message has the content \<open>answer\<close>, the call
  returns \<^verbatim>\<open>None\<close> after printing the answer line and the separator.
\<close>

theorem C9_ask_agent:
  "(run_sync question (print (''Question: '' @ question) w) = (Inl e, w')
      \<longrightarrow> ask_agent run_sync question w = (Inl e, w'))
   \<and> (run_sync question (print (''Question: '' @ question) w) = (Inr msgs, w')
        \<and> last_item msgs = Inr (Inr answer)
      \<longrightarrow> ask_agent run_sync question w
            = (Inr (), w'\<lparr>stdout := stdout w' @ [''Answer: '' @ answer, ''---'']\<rparr>))"
  by (simp add: ask_agent_def Let_def print_def)

text \<open>
  C9, on an orchestrator that raises and on one that answers; each was invoked once, as
  the single \<^verbatim>\<open>Running query\<close> line on the output shows.
\<close>

theorem C9_ask_agent_witness:
  "ask_agent exhausted_run ''How many rows?'' \<lparr>stdout = [], frame = two_cars\<rparr>
     = (Inl (PyExc (Exception_subclass ''UnexpectedModelBehavior'')
          ''Tool exceeded max retries count of 10'' None),
        \<lparr>stdout = [''Question: How many rows?'', ''Running query: `len(df)`''],
         frame = two_cars\<rparr>)
   \<and> ask_agent answering_run ''How many rows?'' \<lparr>stdout = [], frame = two_cars\<rparr>
     = (Inr (),
        \<lparr>stdout = [''Question: How many rows?'', ''Running query: `df.shape[0]`'',
                   ''Answer: The dataset contains 1,000 rows.'', ''---''], frame = two_cars\<rparr>)"
proof -
  let ?w = "\<lparr>stdout = [], frame = two_cars\<rparr>"
  let ?q = "''How many rows?''"
  have a: "exhausted_run ?q (print (''Question: '' @ ?q) ?w)
      = (Inl (PyExc (Exception_subclass ''UnexpectedModelBehavior'')
          ''Tool exceeded max retries count of 10'' None),
        \<lparr>stdout = [''Question: How many rows?'', ''Running query: `len(df)`''],
         frame = two_cars\<rparr>)"
    by (simp add: exhausted_run_def print_def)
  have b: "answering_run ?q (print (''Question: '' @ ?q) ?w)
      = (Inr [Inr ?q, Inr ''The dataset contains 1,000 rows.''],
         \<lparr>stdout = [''Question: How many rows?'', ''Running query: `df.shape[0]`''],
          frame = two_cars\<rparr>)"
    by (simp add: answering_run_def print_def)
  have c: "last_item [Inr ?q, Inr ''The dataset contains 1,000 rows.'']
           = Inr (Inr ''The dataset contains 1,000 rows.'' :: message)"
    by (simp add: last_item_def)
  show ?thesis
    using C9_ask_agent [of exhausted_run ?q ?w _ _ "[]" "''''"] a
      C9_ask_agent [of answering_run ?q ?w "PyExc (Exception_subclass []) [] None" _ _
        "''The dataset contains 1,000 rows.''"] b c
    by simp
qed

section \<open>Properties of the generated data\<close>

lemma comprehension_map:
  "(\<And>x. x \<in> set xs \<Longrightarrow> f x = Inr (g x)) \<Longrightarrow> comprehension f xs = Inr (map g xs)"
  by (induction xs) simp_all

lemma dates_in_range:
  assumes "start_date + n \<le> Suc max_ordinal"
  shows "comprehension (add_days start_date) [0..<n] = Inr (map (\<lambda>i. start_date + i) [0..<n])"
proof (rule comprehension_map)
  fix x assume "x \<in> set [0..<n]"
  then have "start_date + x \<le> max_ordinal" using assms by simp
  then show "add_days start_date x = Inr (start_date + x)" by (simp add: add_days_def)
qed

lemma comprehension_overflow:
  assumes "xs \<noteq> []" "\<And>x. x \<in> set xs \<Longrightarrow> f x = Inl e \<or> (\<exists>y. f x = Inr y)" "f (last xs) = Inl e"
  shows "comprehension f xs = Inl e"
  using assms
proof (induction xs)
  case Nil
  then show ?case by simp
next
  case (Cons x xs)
  show ?case
  proof (cases "xs = []")
    case True
    then show ?thesis using Cons.prems by simp
  next
    case False
    then have "comprehension f xs = Inl e" using Cons by simp
    then show ?thesis using Cons.prems(2) [of x] by auto
  qed
qed

lemma generate_data_overflow:
  assumes "Suc max_ordinal < start_date + n"
  shows "generate_data np n s =
     (Inl (PyExc (Exception_subclass ''OverflowError'') ''date value out of range'' None), s)"
proof -
  have n: "n \<noteq> 0" using assms by (simp add: start_date_def max_ordinal_def)
  then have l: "last [0..<n] = n - 1" by (cases n) simp_all
  have "comprehension (add_days start_date) [0..<n] =
      Inl (PyExc (Exception_subclass ''OverflowError'') ''date value out of range'' None)"
  proof (rule comprehension_overflow)
    show "[0..<n] \<noteq> []" using n by simp
    show "add_days start_date (last [0..<n]) =
      Inl (PyExc (Exception_subclass ''OverflowError'') ''date value out of range'' None)"
      using assms n by (simp add: l add_days_def)
  qed (simp add: add_days_def)
  then show ?thesis by (simp add: generate_data_def)
qed

subsection \<open>Rounding\<close>

lemma rint_lower: "of_int k \<le> x \<Longrightarrow> k \<le> rint x"
proof -
  assume "of_int k \<le> x"
  then have "k \<le> \<lfloor>x\<rfloor>" by (simp add: le_floor_iff)
  then show ?thesis by (simp add: rint_def Let_def)
qed

lemma rint_upper: "x \<le> of_int k \<Longrightarrow> rint x \<le> k"
proof -
  assume a: "x \<le> of_int k"
  have f: "\<lfloor>x\<rfloor> \<le> k" using a by (simp add: floor_le_iff)
  show ?thesis
  proof (cases "x - of_int \<lfloor>x\<rfloor> < 1 / 2")
    case True
    then show ?thesis using f by (simp add: rint_def Let_def)
  next
    case False
    then have "of_int \<lfloor>x\<rfloor> < x" by linarith
    then have "of_int \<lfloor>x\<rfloor> < (of_int k :: real)" using a by linarith
    then have "\<lfloor>x\<rfloor> < k" by simp
    then show ?thesis by (simp add: rint_def Let_def)
  qed
qed

lemma rint_of_int [simp]: "rint (of_int k) = k"
  by (simp add: rint_def)

lemma float_exponent_bounds:
  assumes "x \<noteq> 0"
  shows "2 powr of_int (float_exponent x) \<le> \<bar>x\<bar>" "\<bar>x\<bar> < 2 powr (of_int (float_exponent x) + 1)"
proof -
  have p: "0 < \<bar>x\<bar>" using assms by simp
  have "of_int (float_exponent x) \<le> log 2 \<bar>x\<bar>" by (simp add: float_exponent_def)
  then show "2 powr of_int (float_exponent x) \<le> \<bar>x\<bar>"
    using p by (simp add: le_log_iff)
  have "log 2 \<bar>x\<bar> < of_int (float_exponent x) + 1" by (simp add: float_exponent_def)
  then show "\<bar>x\<bar> < 2 powr (of_int (float_exponent x) + 1)"
    using p by (simp add: log_less_iff)
qed

lemma float_exponent_eq:
  assumes "2 powr of_int e \<le> \<bar>x\<bar>" "\<bar>x\<bar> < 2 powr (of_int e + 1)"
  shows "float_exponent x = e"
proof -
  have p: "0 < \<bar>x\<bar>" using assms(1) by (smt (verit) powr_gt_zero)
  have "of_int e \<le> log 2 \<bar>x\<bar>" using assms(1) p by (simp add: le_log_iff)
  moreover have "log 2 \<bar>x\<bar> < of_int e + 1" using assms(2) p by (simp add: log_less_iff)
  ultimately show ?thesis unfolding float_exponent_def by (simp add: floor_eq_iff)
qed

lemma powr_neg_nat: "2 powr (- real j) = 1 / 2 ^ j"
  by (simp add: powr_minus powr_realpow inverse_eq_divide)

text \<open>
  Below \<open>2 ^ 53\<close> the spacing of the floats is \<open>2 ^ - j\<close> for a natural \<open>j\<close>, so rounding to a
  float never crosses an integer.
\<close>

lemma float64_scaled:
  assumes "x \<noteq> 0" "\<bar>x\<bar> < 2 ^ 53"
  shows "float_exponent x \<le> 52"
    and "float64 x = of_int (rint (x * 2 ^ nat (52 - float_exponent x))) / 2 ^ nat (52 - float_exponent x)"
proof -
  have "2 powr of_int (float_exponent x) \<le> \<bar>x\<bar>" using assms(1) by (rule float_exponent_bounds)
  also have "\<bar>x\<bar> < 2 powr 53"
  proof -
    have "(2::real) powr real 53 = 2 ^ 53" by (rule powr_realpow) simp
    then show ?thesis using assms(2) by simp
  qed
  finally have "2 powr of_int (float_exponent x) < (2::real) powr 53" .
  then have "of_int (float_exponent x) < (53::real)" by (simp only: powr_less_cancel_iff) 
  then show e: "float_exponent x \<le> 52" by linarith
  define j where "j = nat (52 - float_exponent x)"
  have "of_int (float_exponent x) - 52 = - real j" using e by (simp add: j_def)
  then have u: "2 powr (of_int (float_exponent x) - 52) = (1::real) / 2 ^ j"
    by (simp only: powr_neg_nat)
  show "float64 x = of_int (rint (x * 2 ^ nat (52 - float_exponent x))) / 2 ^ nat (52 - float_exponent x)"
    using assms(1) unfolding float64_def u j_def [symmetric] by simp
qed

lemma float64_bounds:
  assumes "\<bar>x\<bar> < 2 ^ 53"
  shows "of_int m \<le> x \<Longrightarrow> of_int m \<le> float64 x"
    and "x \<le> of_int m \<Longrightarrow> float64 x \<le> of_int m"
proof -
  show "of_int m \<le> float64 x" if a: "of_int m \<le> x"
  proof (cases "x = 0")
    case True
    then show ?thesis using a by (simp add: float64_def)
  next
    case False
    define j where "j = nat (52 - float_exponent x)"
    have f: "float64 x = of_int (rint (x * 2 ^ j)) / 2 ^ j"
      unfolding j_def using False assms by (rule float64_scaled(2))
    have "of_int (m * 2 ^ j) \<le> x * 2 ^ j" using a by simp
    then have "m * 2 ^ j \<le> rint (x * 2 ^ j)" by (rule rint_lower)
    then have "(of_int (m * 2 ^ j) :: real) \<le> of_int (rint (x * 2 ^ j))" by (simp only: of_int_le_iff)
    then show ?thesis unfolding f by (simp add: field_simps)
  qed
  show "float64 x \<le> of_int m" if a: "x \<le> of_int m"
  proof (cases "x = 0")
    case True
    then show ?thesis using a by (simp add: float64_def)
  next
    case False
    define j where "j = nat (52 - float_exponent x)"
    have f: "float64 x = of_int (rint (x * 2 ^ j)) / 2 ^ j"
      unfolding j_def using False assms by (rule float64_scaled(2))
    have "x * 2 ^ j \<le> of_int (m * 2 ^ j)" using a by simp
    then have "rint (x * 2 ^ j) \<le> m * 2 ^ j" by (rule rint_upper)
    then have "(of_int (rint (x * 2 ^ j)) :: real) \<le> of_int (m * 2 ^ j)" by (simp only: of_int_le_iff)
    then show ?thesis unfolding f by (simp add: field_simps)
  qed
qed

text \<open>
  The float nearest to a number whose binade is known.
\<close>

lemma float64_eval:
  assumes "2 ^ e \<le> \<bar>x\<bar>" "\<bar>x\<bar> < 2 ^ Suc e" "e \<le> 52"
  shows "float64 x = of_int (rint (x * 2 ^ (52 - e))) / 2 ^ (52 - e)"
proof -
  have "float_exponent x = int e"
  proof (rule float_exponent_eq)
    show "2 powr of_int (int e) \<le> \<bar>x\<bar>" using assms(1) by (simp add: powr_realpow)
    have "(2::real) powr real (Suc e) = 2 ^ Suc e" by (rule powr_realpow) simp
    moreover have "of_int (int e) + 1 = real (Suc e)" by simp
    ultimately have "(2::real) powr (of_int (int e) + 1) = 2 ^ Suc e" by (simp only:)
    then show "\<bar>x\<bar> < 2 powr (of_int (int e) + 1)"
      using assms(2) by (simp only:)
  qed
  moreover have "x \<noteq> 0"
  proof
    assume "x = 0"
    then have "(2::real) ^ e \<le> 0" using assms(1) by simp
    moreover have "(0::real) < 2 ^ e" by simp
    ultimately show False by linarith
  qed
  moreover have "\<bar>x\<bar> < 2 ^ 53"
  proof -
    have "(2::real) ^ Suc e \<le> 2 ^ 53" using assms(3) by (intro power_increasing) simp_all
    then show ?thesis using assms(2) by linarith
  qed
  ultimately show ?thesis
    using float64_scaled(2) [of x] assms(3) by (simp add: nat_diff_distrib')
qed

text \<open>
  Two checks against recorded values: the float of the literal \<^verbatim>\<open>57952.65\<close>, the first
  price the notebook printed; and the float \<^verbatim>\<open>79999.995\<close>, whose product with 100 rounds to
  the tie \<^verbatim>\<open>7999999.5\<close> and which \<^verbatim>\<open>round(2)\<close> therefore takes to \<^verbatim>\<open>80000.0\<close>.
\<close>

lemma recorded_price: "float64 (5795265 / 100) = 7964951566929101 / 137438953472"
  using float64_eval [of 15 "5795265 / 100"] by (simp add: rint_def)

lemma rounding_tie:
  "float64 (687194724410327 / 8589934592 * 10 ^ 2) = 7999999.5
   \<and> ndarray_round 2 (687194724410327 / 8589934592) = 80000"
proof -
  have a: "float64 (17179868110258175 / 2147483648) = 15999999 / 2"
    using float64_eval [of 22 "17179868110258175 / 2147483648"] by (simp add: rint_def)
  have r: "rint (15999999 / 2) = 8000000"
    by (simp add: rint_def)
  have b: "float64 80000 = 80000"
    using float64_eval [of 16 80000] by (simp add: rint_def)
  show ?thesis
    by (simp add: ndarray_round_def a r b)
qed

lemma recorded_price_conforms:
  "is_float_in 20000 80000 2 (FloatCell (7964951566929101 / 137438953472))"
proof -
  have "decimal_float 2 5795265 = 7964951566929101 / 137438953472"
    using recorded_price by (simp add: decimal_float_def)
  then have "\<exists>k. 7964951566929101 / 137438953472 = decimal_float 2 k"
    by (rule exI [of _ 5795265, OF sym])
  then show ?thesis by simp
qed

lemma ndarray_round_in:
  assumes "of_int l \<le> x" "x \<le> of_int h" "\<bar>l\<bar> * 10 ^ d < 2 ^ 53" "\<bar>h\<bar> * 10 ^ d < 2 ^ 53"
  shows "is_float_in (of_int l) (of_int h) d (FloatCell (ndarray_round d x))"
proof (cases "d = 0")
  case True
  have "l \<le> rint x" "rint x \<le> h"
    using assms(1,2) by (simp_all add: rint_lower rint_upper)
  then show ?thesis
    using True by (auto simp add: ndarray_round_def decimal_float_def)
next
  case False
  define p :: real where "p = 10 ^ d"
  have p: "0 < p" "1 \<le> p" by (simp_all add: p_def)
  define y where "y = x * p"
  have ly: "of_int (l * 10 ^ d) \<le> y" and yh: "y \<le> of_int (h * 10 ^ d)"
    using assms(1,2) p(1) by (simp_all add: y_def p_def)
  have "\<bar>y\<bar> \<le> max \<bar>of_int (l * 10 ^ d)\<bar> \<bar>of_int (h * 10 ^ d) :: real\<bar>"
    using ly yh by linarith
  moreover have "\<bar>of_int (l * 10 ^ d) :: real\<bar> < 2 ^ 53" "\<bar>of_int (h * 10 ^ d) :: real\<bar> < 2 ^ 53"
  proof -
    have "real_of_int (\<bar>l\<bar> * 10 ^ d) < real_of_int (2 ^ 53)" using assms(3) by (simp only: of_int_less_iff)
    then show "\<bar>of_int (l * 10 ^ d) :: real\<bar> < 2 ^ 53" by (simp add: abs_mult)
    have "real_of_int (\<bar>h\<bar> * 10 ^ d) < real_of_int (2 ^ 53)" using assms(4) by (simp only: of_int_less_iff)
    then show "\<bar>of_int (h * 10 ^ d) :: real\<bar> < 2 ^ 53" by (simp add: abs_mult)
  qed
  ultimately have ay: "\<bar>y\<bar> < 2 ^ 53" by linarith
  define k where "k = rint (float64 y)"
  have "of_int (l * 10 ^ d) \<le> float64 y" "float64 y \<le> of_int (h * 10 ^ d)"
    using float64_bounds [OF ay] ly yh by blast+
  then have lk: "l * 10 ^ d \<le> k" and kh: "k \<le> h * 10 ^ d"
    by (simp_all add: k_def rint_lower rint_upper)
  define z where "z = of_int k / p"
  have "of_int (l * 10 ^ d) \<le> (of_int k :: real)" "(of_int k :: real) \<le> of_int (h * 10 ^ d)"
    using lk kh by (simp_all only: of_int_le_iff)
  then have lz: "of_int l \<le> z" and zh: "z \<le> of_int h"
    using p(1) by (simp_all add: z_def p_def field_simps)
  have "\<bar>l\<bar> \<le> \<bar>l\<bar> * 10 ^ d" "\<bar>h\<bar> \<le> \<bar>h\<bar> * 10 ^ d"
    by (simp_all add: mult_le_cancel_left1)
  then have "\<bar>l\<bar> < 2 ^ 53" "\<bar>h\<bar> < 2 ^ 53" using assms(3,4) by linarith+
  then have "\<bar>of_int l :: real\<bar> < 2 ^ 53" "\<bar>of_int h :: real\<bar> < 2 ^ 53"
    by (metis of_int_abs of_int_less_numeral_power_cancel_iff)+
  then have az: "\<bar>z\<bar> < 2 ^ 53" using lz zh by linarith
  have "of_int l \<le> float64 z" "float64 z \<le> of_int h"
    using float64_bounds [OF az] lz zh by blast+
  moreover have "ndarray_round d x = float64 z"
    using False by (simp add: ndarray_round_def z_def k_def y_def p_def)
  moreover have "float64 z = decimal_float d k"
    using False by (simp add: decimal_float_def z_def p_def)
  ultimately show ?thesis by auto
qed

subsection \<open>The frame the cell builds\<close>

lemma sorted_dates:
  "sorted (map (\<lambda>i. enat (start + i)) [0..<n])"
  by (simp add: sorted_map sorted_wrt_iff_nth_less)

lemma contract_choice:
  assumes "np_contract np" "xs \<noteq> []" "np_choice np xs n s = (ys, s')"
  shows "length ys = n" "set ys \<subseteq> set xs"
proof -
  have "length (fst (np_choice np xs n s)) = n \<and> set (fst (np_choice np xs n s)) \<subseteq> set xs"
    using assms(1,2) unfolding np_contract_def by blast
  then show "length ys = n" "set ys \<subseteq> set xs" using assms(3) by simp_all
qed

lemma contract_randint:
  assumes "np_contract np" "lo < hi" "np_randint np lo hi n s = (ys, s')"
  shows "length ys = n" "\<And>x. x \<in> set ys \<Longrightarrow> lo \<le> x \<and> x < hi"
proof -
  have "length (fst (np_randint np lo hi n s)) = n \<and>
        (\<forall>x \<in> set (fst (np_randint np lo hi n s)). lo \<le> x \<and> x < hi)"
    using assms(1,2) unfolding np_contract_def by blast
  then show "length ys = n" "\<And>x. x \<in> set ys \<Longrightarrow> lo \<le> x \<and> x < hi"
    using assms(3) by simp_all
qed

lemma contract_uniform:
  assumes "np_contract np" "lo \<le> hi" "np_uniform np lo hi n s = (ys, s')"
  shows "length ys = n" "\<And>x. x \<in> set ys \<Longrightarrow> lo \<le> x \<and> x \<le> hi"
proof -
  have "length (fst (np_uniform np lo hi n s)) = n \<and>
        (\<forall>x \<in> set (fst (np_uniform np lo hi n s)). lo \<le> x \<and> x \<le> hi)"
    using assms(1,2) unfolding np_contract_def by blast
  then show "length ys = n" "\<And>x. x \<in> set ys \<Longrightarrow> lo \<le> x \<and> x \<le> hi"
    using assms(3) by simp_all
qed

lemma row_key_drawn_row:
  "row_key ''Date'' (l, drawn_row make_col model_col color_col year_col price_col mileage_col engine_col fuel_col sales_col i)
     = enat (start_date + i)"
  by (simp add: row_key_def drawn_row_def)

lemma sort_drawn_rows:
  "sort_key (row_key ''Date'')
     (map (\<lambda>i. (i, drawn_row make_col model_col color_col year_col price_col mileage_col engine_col fuel_col sales_col i)) [0..<n])
   = map (\<lambda>i. (i, drawn_row make_col model_col color_col year_col price_col mileage_col engine_col fuel_col sales_col i)) [0..<n]"
  by (rule sort_key_id_if_sorted) (simp add: o_def row_key_drawn_row sorted_dates)

lemma generate_data_result:
  assumes c: "np_contract np" and b: "start_date + n \<le> Suc max_ordinal"
  obtains make_col model_col color_col year_col price_col mileage_col engine_col fuel_col
    sales_col s'
  where "length make_col = n" "set make_col \<subseteq> StrCell ` set makes"
    "length model_col = n" "set model_col \<subseteq> StrCell ` set models"
    "length color_col = n" "set color_col \<subseteq> StrCell ` set colors"
    "length year_col = n" "\<forall>x \<in> set year_col. 2015 \<le> x \<and> x < 2023"
    "length price_col = n" "\<forall>x \<in> set price_col. 20000 \<le> x \<and> x \<le> 80000"
    "length mileage_col = n" "\<forall>x \<in> set mileage_col. 0 \<le> x \<and> x \<le> 100000"
    "length engine_col = n" "set engine_col \<subseteq> FloatCell ` set engine_sizes"
    "length fuel_col = n" "\<forall>x \<in> set fuel_col. 20 \<le> x \<and> x \<le> 40"
    "length sales_col = n" "set sales_col \<subseteq> StrCell ` set sales_persons"
    "generate_data np n s =
       (Inr \<lparr>df_columns = map fst schema,
             df_rows = map (\<lambda>i. (i, drawn_row make_col model_col color_col year_col price_col
                                     mileage_col engine_col fuel_col sales_col i)) [0..<n]\<rparr>, s')"
proof -
  obtain make_col s1 where d1: "np_choice np (map StrCell makes) n s = (make_col, s1)" by fastforce
  obtain model_col s2 where d2: "np_choice np (map StrCell models) n s1 = (model_col, s2)" by fastforce
  obtain color_col s3 where d3: "np_choice np (map StrCell colors) n s2 = (color_col, s3)" by fastforce
  obtain year_col s4 where d4: "np_randint np 2015 2023 n s3 = (year_col, s4)" by fastforce
  obtain price_col s5 where d5: "np_uniform np 20000 80000 n s4 = (price_col, s5)" by fastforce
  obtain mileage_col s6 where d6: "np_uniform np 0 100000 n s5 = (mileage_col, s6)" by fastforce
  obtain engine_col s7 where d7: "np_choice np (map FloatCell engine_sizes) n s6 = (engine_col, s7)"
    by fastforce
  obtain fuel_col s8 where d8: "np_uniform np 20 40 n s7 = (fuel_col, s8)" by fastforce
  obtain sales_col s9 where d9: "np_choice np (map StrCell sales_persons) n s8 = (sales_col, s9)"
    by fastforce
  have l1: "length make_col = n" and m1: "set make_col \<subseteq> StrCell ` set makes"
    using contract_choice [OF c _ d1] by (simp_all add: makes_def)
  have l2: "length model_col = n" and m2: "set model_col \<subseteq> StrCell ` set models"
    using contract_choice [OF c _ d2] by (simp_all add: models_def)
  have l3: "length color_col = n" and m3: "set color_col \<subseteq> StrCell ` set colors"
    using contract_choice [OF c _ d3] by (simp_all add: colors_def)
  have l4: "length year_col = n" and m4: "\<forall>x \<in> set year_col. 2015 \<le> x \<and> x < 2023"
    using contract_randint [OF c _ d4] by simp_all
  have l5: "length price_col = n" and m5: "\<forall>x \<in> set price_col. 20000 \<le> x \<and> x \<le> 80000"
    using contract_uniform [OF c _ d5] by simp_all
  have l6: "length mileage_col = n" and m6: "\<forall>x \<in> set mileage_col. 0 \<le> x \<and> x \<le> 100000"
    using contract_uniform [OF c _ d6] by simp_all
  have l7: "length engine_col = n" and m7: "set engine_col \<subseteq> FloatCell ` set engine_sizes"
    using contract_choice [OF c _ d7] by (simp_all add: engine_sizes_def)
  have l8: "length fuel_col = n" and m8: "\<forall>x \<in> set fuel_col. 20 \<le> x \<and> x \<le> 40"
    using contract_uniform [OF c _ d8] by simp_all
  have l9: "length sales_col = n" and m9: "set sales_col \<subseteq> StrCell ` set sales_persons"
    using contract_choice [OF c _ d9] by (simp_all add: sales_persons_def)
  have df: "DataFrame
       [(''Date'', map DateCell (map (\<lambda>i. start_date + i) [0..<n])),
        (''Make'', make_col),
        (''Model'', model_col),
        (''Color'', color_col),
        (''Year'', map IntCell year_col),
        (''Price'', map (\<lambda>x. FloatCell (ndarray_round 2 x)) price_col),
        (''Mileage'', map (\<lambda>x. FloatCell (ndarray_round 0 x)) mileage_col),
        (''EngineSize'', engine_col),
        (''FuelEfficiency'', map (\<lambda>x. FloatCell (ndarray_round 1 x)) fuel_col),
        (''SalesPerson'', sales_col)]
     = Inr \<lparr>df_columns = map fst schema,
            df_rows = map (\<lambda>i. (i, drawn_row make_col model_col color_col year_col price_col
                                   mileage_col engine_col fuel_col sales_col i)) [0..<n]\<rparr>"
    by (simp add: DataFrame_def schema_def drawn_row_def l1 l2 l3 l4 l5 l6 l7 l8 l9)
  have g: "generate_data np n s =
       (Inr \<lparr>df_columns = map fst schema,
             df_rows = map (\<lambda>i. (i, drawn_row make_col model_col color_col year_col price_col
                                     mileage_col engine_col fuel_col sales_col i)) [0..<n]\<rparr>, s9)"
    apply (simp only: generate_data_def dates_in_range [OF b] d1 d2 d3 d4 d5 d6 d7 d8 d9
        sum.case prod.case Let_def df)
    apply (simp add: sort_values_def schema_def sort_drawn_rows)
    done
  show thesis
    using l1 m1 l2 m2 l3 m3 l4 m4 l5 m5 l6 m6 l7 m7 l8 m8 l9 m9 g by (rule that)
qed

lemma conforms_drawn_row:
  assumes "i < length make_col" "set make_col \<subseteq> StrCell ` set makes"
    "i < length model_col" "set model_col \<subseteq> StrCell ` set models"
    "i < length color_col" "set color_col \<subseteq> StrCell ` set colors"
    "i < length year_col" "\<forall>x \<in> set year_col. 2015 \<le> x \<and> x < 2023"
    "i < length price_col" "\<forall>x \<in> set price_col. 20000 \<le> x \<and> x \<le> 80000"
    "i < length mileage_col" "\<forall>x \<in> set mileage_col. 0 \<le> x \<and> x \<le> 100000"
    "i < length engine_col" "set engine_col \<subseteq> FloatCell ` set engine_sizes"
    "i < length fuel_col" "\<forall>x \<in> set fuel_col. 20 \<le> x \<and> x \<le> 40"
    "i < length sales_col" "set sales_col \<subseteq> StrCell ` set sales_persons"
  shows "conforms (drawn_row make_col model_col color_col year_col price_col mileage_col
                     engine_col fuel_col sales_col i)"
proof -
  have str: "\<And>xs col. i < length col \<Longrightarrow> set col \<subseteq> StrCell ` set xs \<Longrightarrow> is_str_of xs (col ! i)"
  proof -
    fix xs :: "string list" and col :: "cell list"
    assume "i < length col" "set col \<subseteq> StrCell ` set xs"
    then have "col ! i \<in> StrCell ` set xs" using nth_mem by blast
    then show "is_str_of xs (col ! i)" by auto
  qed
  have flt: "\<And>l h d col. i < length col \<Longrightarrow> \<forall>x \<in> set col. of_int l \<le> x \<and> x \<le> of_int h \<Longrightarrow>
      \<bar>l\<bar> * 10 ^ d < 2 ^ 53 \<Longrightarrow> \<bar>h\<bar> * 10 ^ d < 2 ^ 53 \<Longrightarrow>
      is_float_in (of_int l) (of_int h) d (FloatCell (ndarray_round d (col ! i)))"
  proof -
    fix l h :: int and d and col :: "real list"
    assume "i < length col" "\<forall>x \<in> set col. of_int l \<le> x \<and> x \<le> of_int h"
      and lh: "\<bar>l\<bar> * 10 ^ d < 2 ^ 53" "\<bar>h\<bar> * 10 ^ d < 2 ^ 53"
    then have "of_int l \<le> col ! i" "col ! i \<le> of_int h" using nth_mem by blast+
    then show "is_float_in (of_int l) (of_int h) d (FloatCell (ndarray_round d (col ! i)))"
      using lh by (rule ndarray_round_in)
  qed
  have 1: "is_str_of makes (make_col ! i)" using assms(1,2) by (rule str)
  have 2: "is_str_of models (model_col ! i)" using assms(3,4) by (rule str)
  have 3: "is_str_of colors (color_col ! i)" using assms(5,6) by (rule str)
  have "2015 \<le> year_col ! i \<and> year_col ! i < 2023" using assms(7,8) nth_mem by blast
  then have 4: "is_int_in 2015 2022 (IntCell (year_col ! i))" by simp
  have 5: "is_float_in 20000 80000 2 (FloatCell (ndarray_round 2 (price_col ! i)))"
    using flt [of price_col 20000 80000 2] assms(9,10) by simp
  have 6: "is_float_in 0 100000 0 (FloatCell (ndarray_round 0 (mileage_col ! i)))"
    using flt [of mileage_col 0 100000 0] assms(11,12) by simp
  have "engine_col ! i \<in> FloatCell ` set engine_sizes" using assms(13,14) nth_mem by blast
  then have 7: "is_float_of engine_sizes (engine_col ! i)" by auto
  have 8: "is_float_in 20 40 1 (FloatCell (ndarray_round 1 (fuel_col ! i)))"
    using flt [of fuel_col 20 40 1] assms(15,16) by simp
  have 9: "is_str_of sales_persons (sales_col ! i)" using assms(17,18) by (rule str)
  show ?thesis
    using 1 2 3 4 5 6 7 8 9 by (simp add: conforms_def schema_def drawn_row_def)
qed

lemma counter_choice:
  "xs \<noteq> [] \<Longrightarrow> set (map (\<lambda>i. xs ! ((s + i) mod length xs)) [0..<n]) \<subseteq> set xs"
  by auto

lemma counter_randint:
  assumes "lo < hi" "x \<in> set (map (\<lambda>i. lo + int ((s + i) mod nat (hi - lo))) [0..<n])"
  shows "lo \<le> x \<and> x < hi"
proof -
  obtain i where x: "x = lo + int ((s + i) mod nat (hi - lo))" using assms(2) by auto
  have "(s + i) mod nat (hi - lo) < nat (hi - lo)" using assms(1) by simp
  then have "int ((s + i) mod nat (hi - lo)) < hi - lo" by linarith
  then show ?thesis using x by simp
qed

lemma counter_uniform:
  assumes "lo \<le> hi"
    "x \<in> set (map (\<lambda>i. lo + (hi - lo) * real ((s + i) mod 1024) / 1024) [0..<n])"
  shows "lo \<le> x \<and> x \<le> (hi::real)"
proof -
  obtain i where x: "x = lo + (hi - lo) * real ((s + i) mod 1024) / 1024"
    using assms(2) by auto
  have "(s + i) mod 1024 < 1024" by simp
  then have k: "0 \<le> real ((s + i) mod 1024) / 1024" "real ((s + i) mod 1024) / 1024 \<le> 1"
    by simp_all
  have d: "0 \<le> hi - lo" using assms(1) by simp
  have "0 \<le> (hi - lo) * (real ((s + i) mod 1024) / 1024)"
    using d k(1) by (rule mult_nonneg_nonneg)
  moreover have "(hi - lo) * (real ((s + i) mod 1024) / 1024) \<le> (hi - lo) * 1"
    using k(2) d by (rule mult_left_mono)
  ultimately show ?thesis using x by simp
qed

lemma counter_rng_contract: "np_contract counter_rng"
  unfolding np_contract_def
proof (intro conjI allI impI ballI)
  fix xs :: "cell list" and n s :: nat
  assume "xs \<noteq> []"
  then show "set (fst (np_choice counter_rng xs n s)) \<subseteq> set xs"
    using counter_choice [of xs s n] by (simp add: counter_rng_def)
next
  fix lo hi :: int and n s :: nat and x
  assume "lo < hi" "x \<in> set (fst (np_randint counter_rng lo hi n s))"
  then have "lo \<le> x \<and> x < hi" using counter_randint [of lo hi x s n] by (simp add: counter_rng_def)
  then show "lo \<le> x" "x < hi" by simp_all
next
  fix lo hi :: real and n s :: nat and x
  assume "lo \<le> hi" "x \<in> set (fst (np_uniform counter_rng lo hi n s))"
  then have "lo \<le> x \<and> x \<le> hi" using counter_uniform [of lo hi x s n] by (simp add: counter_rng_def)
  then show "lo \<le> x" "x \<le> hi" by simp_all
qed (simp_all add: counter_rng_def)

lemma upt_0_2: "[0..<2] = [0, 1::nat]"
  by (simp add: upt_rec)

lemma sample_floats:
  "float64 (9171875 / 4) = 9171875 / 4"
  "float64 (18390625 / 8) = 18390625 / 8"
  "float64 (2292969 / 100) = 6302865194074767 / 274877906944"
  "float64 (574707 / 25) = 789871286330327 / 34359738368"
  "float64 (3375 / 16) = 3375 / 16"
  "float64 (27025 / 128) = 27025 / 128"
  "float64 (211 / 10) = 2969561004297421 / 140737488355328"
  "float64 (8 / 5) = 3602879701896397 / 2251799813685248"
  "float64 2 = 2"
  using float64_eval [of 21 "9171875 / 4"] float64_eval [of 21 "18390625 / 8"]
    float64_eval [of 14 "2292969 / 100"] float64_eval [of 14 "574707 / 25"]
    float64_eval [of 7 "3375 / 16"] float64_eval [of 7 "27025 / 128"]
    float64_eval [of 4 "211 / 10"] float64_eval [of 0 "8 / 5"] float64_eval [of 1 2]
  by (simp_all add: rint_def)

lemma sample_rints:
  "rint (9171875 / 4) = 2292969"
  "rint (18390625 / 8) = 2298828"
  "rint (3375 / 16) = 211"
  "rint (27025 / 128) = 211"
  "rint (40625 / 8) = 5078"
  "rint (165625 / 32) = 5176"
  by (simp_all add: rint_def)

lemma counter_rng_sample: "generate_data counter_rng 2 42 = (Inr sample_frame, 60)"
  by (simp add: generate_data_def counter_rng_def upt_0_2 add_days_def start_date_def
      max_ordinal_def makes_def models_def colors_def engine_sizes_def sales_persons_def
      DataFrame_def sort_values_def row_key_def ndarray_round_def Let_def
      sample_frame_def sample_floats sample_rints)

text \<open>
  C6. With a generator that meets NumPy's contract and a row count \<open>n\<close> whose last date
  does not pass 9999-12-31 (\<open>n \<le> 2913904\<close>), the generation cell produces a frame of
  exactly \<open>n\<close> records, record \<open>i\<close> has the date 2022-01-01 plus \<open>i\<close> days, and the
  records are in ascending order of \<^verbatim>\<open>Date\<close>.
\<close>

theorem C6_generated_rows:
  assumes "np_contract np" and "start_date + n \<le> Suc max_ordinal"
  shows "\<exists>d s'. generate_data np n s = (Inr d, s')
           \<and> length (df_rows d) = n
           \<and> date_column d = map (\<lambda>i. Some (DateCell (start_date + i))) [0..<n]
           \<and> sorted (map (row_key ''Date'') (df_rows d))"
proof -
  from assms obtain make_col model_col color_col year_col price_col mileage_col engine_col
      fuel_col sales_col s'
    where g: "generate_data np n s =
       (Inr \<lparr>df_columns = map fst schema,
             df_rows = map (\<lambda>i. (i, drawn_row make_col model_col color_col year_col price_col
                                     mileage_col engine_col fuel_col sales_col i)) [0..<n]\<rparr>, s')"
    by (rule generate_data_result)
  show ?thesis
    unfolding g
    by (simp add: date_column_def o_def drawn_row_def row_key_def sorted_dates)
qed

text \<open>
  C6, on the stand-in generator with two rows.
\<close>

theorem C6_generated_rows_witness:
  "np_contract counter_rng
   \<and> start_date + 2 \<le> Suc max_ordinal
   \<and> (\<exists>d s'. generate_data counter_rng 2 42 = (Inr d, s')
         \<and> length (df_rows d) = 2
         \<and> date_column d = [Some (DateCell 738156), Some (DateCell 738157)]
         \<and> sorted (map (row_key ''Date'') (df_rows d)))"
proof -
  have b: "start_date + 2 \<le> Suc max_ordinal"
    by (simp add: start_date_def max_ordinal_def)
  show ?thesis
    using C6_generated_rows [OF counter_rng_contract b, of 42] counter_rng_contract b
    by (simp add: upt_0_2 start_date_def)
qed

text \<open>
  C7. Under the same two conditions the frame has the ten declared columns and every
  record conforms to the schema: each column is present, is not null, and holds a value
  of its declared type. A string is one of its column's enumeration, the year an integer
  from 2015 to 2022, the engine size one of the six float literals, and a price, mileage
  or fuel efficiency a float within its bounds that is the float of a number with 2, 0
  or 1 decimal places.
\<close>

theorem C7_schema_invariant:
  assumes "np_contract np" and "start_date + n \<le> Suc max_ordinal"
  shows "\<exists>d s'. generate_data np n s = (Inr d, s')
           \<and> df_columns d = map fst schema
           \<and> list_all (\<lambda>lr. conforms (snd lr)) (df_rows d)"
proof -
  from assms obtain make_col model_col color_col year_col price_col mileage_col engine_col
      fuel_col sales_col s'
    where l: "length make_col = n" "length model_col = n" "length color_col = n"
      "length year_col = n" "length price_col = n" "length mileage_col = n"
      "length engine_col = n" "length fuel_col = n" "length sales_col = n"
    and m: "set make_col \<subseteq> StrCell ` set makes" "set model_col \<subseteq> StrCell ` set models"
      "set color_col \<subseteq> StrCell ` set colors" "\<forall>x \<in> set year_col. 2015 \<le> x \<and> x < 2023"
      "\<forall>x \<in> set price_col. 20000 \<le> x \<and> x \<le> 80000"
      "\<forall>x \<in> set mileage_col. 0 \<le> x \<and> x \<le> 100000"
      "set engine_col \<subseteq> FloatCell ` set engine_sizes" "\<forall>x \<in> set fuel_col. 20 \<le> x \<and> x \<le> 40"
      "set sales_col \<subseteq> StrCell ` set sales_persons"
    and g: "generate_data np n s =
       (Inr \<lparr>df_columns = map fst schema,
             df_rows = map (\<lambda>i. (i, drawn_row make_col model_col color_col year_col price_col
                                     mileage_col engine_col fuel_col sales_col i)) [0..<n]\<rparr>, s')"
    by (rule generate_data_result)
  have "\<And>i. i < n \<Longrightarrow> conforms (drawn_row make_col model_col color_col year_col price_col
                                    mileage_col engine_col fuel_col sales_col i)"
    by (rule conforms_drawn_row) (simp_all add: l m)
  then show ?thesis
    unfolding g by (simp add: list_all_iff)
qed

text \<open>
  C7, on the two records the stand-in generator yields.
\<close>

theorem C7_schema_invariant_witness:
  "np_contract counter_rng
   \<and> start_date + 2 \<le> Suc max_ordinal
   \<and> generate_data counter_rng 2 42 = (Inr sample_frame, 60)
   \<and> df_columns sample_frame = map fst schema
   \<and> list_all (\<lambda>lr. conforms (snd lr)) (df_rows sample_frame)"
proof -
  have b: "start_date + 2 \<le> Suc max_ordinal"
    by (simp add: start_date_def max_ordinal_def)
  show ?thesis
    using C7_schema_invariant [OF counter_rng_contract b, of 42] counter_rng_contract b
    by (simp add: counter_rng_sample)
qed

end
